theory Spec2Isabelle
  imports Main
begin

section \<open>GatherWebTargets: the data\<close>

text \<open>
  The task \<open>GatherWebTargets.run\<close> of \<open>pipeline/recon/web/targets.py\<close> reads two
  upstream artifacts and writes one file.

  \<^item> The unpickled masscan result \<open>ip_dict\<close> is a Python dict from a host to a dict from a
    protocol name to a set of port strings. The three nested loops of \<open>run\<close> only walk over
    \<open>.items()\<close> and over the port sets, so each level is an association list (a list for
    the set) in iteration order; a Python dict has no repeated key, and nothing proved
    below depends on that or on the order.
  \<^item> The amass result is a collection of files (\<open>self.input().get("amass-output").values()\<close>),
    each read line by line: a list of shards, each a list of lines as the file iterator
    yields them.
  \<^item> \<open>web_ports\<close> is imported from the package's \<open>config\<close> module, which is not
    among the sources: it is a parameter here, a set of port strings, used only through
    \<open>port in web_ports\<close>.
  \<^item> \<open>targets\<close> is a Python set of strings. It is a duplicate-free list: \<open>add\<close> leaves
    the list alone when the element is already there. The order in which Python iterates
    over a set is not fixed, so only the elements of that list and their multiplicities
    mean something, never their positions.

  A \<open>char\<close> stands for a code point below 256.
\<close>

type_synonym port_set = "string list"
type_synonym protocol_dict = "(string \<times> port_set) list"
type_synonym ip_dict = "(string \<times> protocol_dict) list"

text \<open>\<open>targets.add(t)\<close> on a set.\<close>

definition add :: "string \<Rightarrow> string list \<Rightarrow> string list" where
  "add t targets = (if t \<in> set targets then targets else targets @ [t])"

text \<open>
  \<open>str.strip()\<close> with no argument removes leading and trailing whitespace, that is the
  characters for which \<open>str.isspace\<close> holds. Below 256 these are the code points 9 to 13,
  28 to 32, 133 and 160.
\<close>

definition isspace :: "char \<Rightarrow> bool" where
  "isspace c = (of_char c \<in> {9, 10, 11, 12, 13, 28, 29, 30, 31, 32, 133, 160 :: nat})"

definition strip :: "string \<Rightarrow> string" where
  "strip s = rev (dropWhile isspace (rev (dropWhile isspace s)))"

section \<open>GatherWebTargets.run\<close>

text \<open>
  The body of the innermost loop (lines 89 to 94):
  \<^verbatim>\<open>
  if protocol == "udp":
      continue
  if port == "80":
      targets.add(target)
  elif port in web_ports:
      targets.add(f"{target}:{port}")
  \<close>
\<close>

definition port_step ::
  "string set \<Rightarrow> string \<Rightarrow> string \<Rightarrow> string list \<Rightarrow> string \<Rightarrow> string list" where
  "port_step web_ports target protocol targets port =
     (if protocol = ''udp'' then targets
      else if port = ''80'' then add target targets
      else if port \<in> web_ports then add (target @ '':'' @ port) targets
      else targets)"

text \<open>\<open>for port in ports\<close> (line 88).\<close>

fun ports_loop ::
  "string set \<Rightarrow> string \<Rightarrow> string \<Rightarrow> port_set \<Rightarrow> string list \<Rightarrow> string list" where
  "ports_loop web_ports target protocol [] targets = targets"
| "ports_loop web_ports target protocol (port # ports) targets =
     ports_loop web_ports target protocol ports
       (port_step web_ports target protocol targets port)"

text \<open>\<open>for protocol, ports in protocol_dict.items()\<close> (line 87).\<close>

fun protocols_loop ::
  "string set \<Rightarrow> string \<Rightarrow> protocol_dict \<Rightarrow> string list \<Rightarrow> string list" where
  "protocols_loop web_ports target [] targets = targets"
| "protocols_loop web_ports target ((protocol, ports) # rest) targets =
     protocols_loop web_ports target rest
       (ports_loop web_ports target protocol ports targets)"

text \<open>\<open>for target, protocol_dict in ip_dict.items()\<close> (line 86).\<close>

fun hosts_loop :: "string set \<Rightarrow> ip_dict \<Rightarrow> string list \<Rightarrow> string list" where
  "hosts_loop web_ports [] targets = targets"
| "hosts_loop web_ports ((target, protocol_dict) # rest) targets =
     hosts_loop web_ports rest (protocols_loop web_ports target protocol_dict targets)"

text \<open>\<open>for target in f: targets.add(target.strip())\<close> (lines 98 to 100).\<close>

fun lines_loop :: "string list \<Rightarrow> string list \<Rightarrow> string list" where
  "lines_loop [] targets = targets"
| "lines_loop (target # rest) targets = lines_loop rest (add (strip target) targets)"

text \<open>\<open>for amass_result in self.input().get("amass-output").values()\<close> (line 96).\<close>

fun shards_loop :: "string list list \<Rightarrow> string list \<Rightarrow> string list" where
  "shards_loop [] targets = targets"
| "shards_loop (f # rest) targets = shards_loop rest (lines_loop f targets)"

text \<open>
  The set \<open>targets\<close> when the output is opened (line 102): it starts empty (line 73), the
  masscan loop runs first, the amass loop second.
\<close>

definition gather :: "string set \<Rightarrow> ip_dict \<Rightarrow> string list list \<Rightarrow> string list" where
  "gather web_ports ip_dict amass = shards_loop amass (hosts_loop web_ports ip_dict [])"

text \<open>
  The strings written to the output, one \<open>f.write(f"{target}\n")\<close> for each element of
  \<open>targets\<close> (lines 102 to 104).
\<close>

definition write_targets :: "string list \<Rightarrow> string list" where
  "write_targets targets = map (\<lambda>target. target @ [CHR 0x0A]) targets"

definition run :: "string set \<Rightarrow> ip_dict \<Rightarrow> string list list \<Rightarrow> string list" where
  "run web_ports ip_dict amass = write_targets (gather web_ports ip_dict amass)"

text \<open>
  The same two loops with the sources processed in the other order, the amass loop first
  and the masscan loop second. The task never runs this; it is what the commutativity
  property of the specification compares \<open>gather\<close> with.
\<close>

definition gather_amass_first :: "string set \<Rightarrow> ip_dict \<Rightarrow> string list list \<Rightarrow> string list" where
  "gather_amass_first web_ports ip_dict amass = hosts_loop web_ports ip_dict (shards_loop amass [])"

section \<open>What each loop adds\<close>

text \<open>
  Sets used to describe the loops: the entries one pass of the innermost body adds, those
  one host adds, those the whole masscan result adds, and those the amass lines add.
\<close>

definition port_entries :: "string set \<Rightarrow> string \<Rightarrow> string \<Rightarrow> string \<Rightarrow> string set" where
  "port_entries web_ports target protocol port =
     (if protocol = ''udp'' then {}
      else if port = ''80'' then {target}
      else if port \<in> web_ports then {target @ '':'' @ port}
      else {})"

definition host_entries :: "string set \<Rightarrow> string \<Rightarrow> protocol_dict \<Rightarrow> string set" where
  "host_entries web_ports target protocol_dict =
     (\<Union>(protocol, ports) \<in> set protocol_dict.
        \<Union>port \<in> set ports. port_entries web_ports target protocol port)"

definition scan_entries :: "string set \<Rightarrow> ip_dict \<Rightarrow> string set" where
  "scan_entries web_ports ip_dict =
     (\<Union>(target, protocol_dict) \<in> set ip_dict. host_entries web_ports target protocol_dict)"

definition amass_entries :: "string list list \<Rightarrow> string set" where
  "amass_entries amass = (\<Union>f \<in> set amass. strip ` set f)"

section \<open>The run on whatever the artifacts hold\<close>

text \<open>
  The loops above take the masscan result in the shape the comment in \<open>run\<close> gives
  (lines 77 to 85). Python checks no shape: \<open>pickle.load\<close> returns whatever object the
  artifact holds, and a step fails only when the object at hand does not support it.
  \<open>run\<close> catches nothing, so the first exception ends it.

  The objects of this section are strings, integers and \<open>None\<close>, sets of these, lists and
  tuples of objects, and dicts with string keys whose values are objects. What follows is
  about artifacts that hold such an object; other objects (floats, bytes, instances of
  classes, dicts with other keys) are not covered.
\<close>

datatype atom = PyStr string | PyInt int | PyNone

datatype pyobj =
  Atom atom
| PySet "atom list"
| PyList "pyobj list"
| PyTuple "pyobj list"
| PyDict "(string \<times> pyobj) list"

text \<open>
  The exceptions: the two that the steps of \<open>run\<close> itself raise on these objects, and any
  other, by the name of its class, for what the library calls raise (\<open>mkdir\<close>, \<open>open\<close>,
  \<open>pickle.load\<close>, reading and writing a file).
\<close>

datatype exn = AttributeError | TypeError | OtherError string

text \<open>\<open>obj.items()\<close>: only a dict has the method.\<close>

definition py_items :: "pyobj \<Rightarrow> exn + (string \<times> pyobj) list" where
  "py_items obj =
     (case obj of
        PyDict kvs \<Rightarrow> Inr kvs
      | Atom a \<Rightarrow> Inl AttributeError
      | PySet xs \<Rightarrow> Inl AttributeError
      | PyList xs \<Rightarrow> Inl AttributeError
      | PyTuple xs \<Rightarrow> Inl AttributeError)"

text \<open>
  \<open>for port in obj\<close>: a set, a list and a tuple give their elements, a dict its keys, a
  string its characters as strings of length one; an integer and \<open>None\<close> are not
  iterable.
\<close>

definition py_iter :: "pyobj \<Rightarrow> exn + pyobj list" where
  "py_iter obj =
     (case obj of
        PySet xs \<Rightarrow> Inr (map Atom xs)
      | PyList xs \<Rightarrow> Inr xs
      | PyTuple xs \<Rightarrow> Inr xs
      | PyDict kvs \<Rightarrow> Inr (map (\<lambda>(k, v). Atom (PyStr k)) kvs)
      | Atom (PyStr s) \<Rightarrow> Inr (map (\<lambda>c. Atom (PyStr [c])) s)
      | Atom (PyInt i) \<Rightarrow> Inl TypeError
      | Atom PyNone \<Rightarrow> Inl TypeError)"

text \<open>
  \<open>hash(obj)\<close> does not raise: sets, lists and dicts are unhashable, and so is a tuple
  that holds an unhashable object.
\<close>

fun hashable :: "pyobj \<Rightarrow> bool" where
  "hashable (Atom a) = True"
| "hashable (PyTuple xs) = list_all hashable xs"
| "hashable (PySet xs) = False"
| "hashable (PyList xs) = False"
| "hashable (PyDict kvs) = False"









text \<open>
  The shape the comment of lines 77 to 85 gives: a dict whose values are dicts whose values
  are sets of strings.
\<close>

fun is_str :: "atom \<Rightarrow> bool" where
  "is_str (PyStr s) = True"
| "is_str (PyInt i) = False"
| "is_str PyNone = False"

definition is_port_set :: "pyobj \<Rightarrow> bool" where
  "is_port_set obj = (case obj of PySet xs \<Rightarrow> list_all is_str xs | _ \<Rightarrow> False)"

definition is_protocol_dict :: "pyobj \<Rightarrow> bool" where
  "is_protocol_dict obj =
     (case obj of
        PyDict kvs \<Rightarrow> list_all (\<lambda>(protocol, ports). is_port_set ports) kvs
      | _ \<Rightarrow> False)"

definition is_ip_dict :: "pyobj \<Rightarrow> bool" where
  "is_ip_dict obj =
     (case obj of
        PyDict kvs \<Rightarrow> list_all (\<lambda>(target, protocol_dict). is_protocol_dict protocol_dict) kvs
      | _ \<Rightarrow> False)"

text \<open>An \<open>ip_dict\<close> of the first sections as an object.\<close>

definition as_pyobj :: "ip_dict \<Rightarrow> pyobj" where
  "as_pyobj ip_dict =
     PyDict (map (\<lambda>(target, protocol_dict).
       (target, PyDict (map (\<lambda>(protocol, ports). (protocol, PySet (map PyStr ports)))
          protocol_dict))) ip_dict)"

text \<open>
  The objects the three loops get through without an exception. A port is fine when
  \<open>port in web_ports\<close> does not raise; the ports of a protocol are fine when they can be
  iterated over and, unless the protocol is \<open>"udp"\<close>, each port is fine; a host is fine when
  its value is a dict with fine ports throughout; the object loaded is mergeable when it is
  a dict with fine hosts throughout.
\<close>

definition port_ok :: "pyobj \<Rightarrow> bool" where
  "port_ok port =
     (case port of
        Atom a \<Rightarrow> True
      | PySet xs \<Rightarrow> True
      | PyTuple xs \<Rightarrow> hashable (PyTuple xs)
      | PyList xs \<Rightarrow> False
      | PyDict kvs \<Rightarrow> False)"

definition ports_ok :: "string \<Rightarrow> pyobj \<Rightarrow> bool" where
  "ports_ok protocol ports =
     (case py_iter ports of
        Inl e \<Rightarrow> False
      | Inr ps \<Rightarrow> protocol = ''udp'' \<or> list_all port_ok ps)"

definition host_ok :: "pyobj \<Rightarrow> bool" where
  "host_ok protocol_dict =
     (case py_items protocol_dict of
        Inl e \<Rightarrow> False
      | Inr items \<Rightarrow> list_all (\<lambda>(protocol, ports). ports_ok protocol ports) items)"




section \<open>The loops as sets of entries\<close>

lemma set_add: "set (add t targets) = insert t (set targets)"
  by (auto simp: add_def)

lemma distinct_add: "distinct targets \<Longrightarrow> distinct (add t targets)"
  by (simp add: add_def)

lemma set_port_step:
  "set (port_step web_ports target protocol targets port) =
     set targets \<union> port_entries web_ports target protocol port"
  by (simp add: port_step_def port_entries_def set_add)

lemma distinct_port_step:
  "distinct targets \<Longrightarrow> distinct (port_step web_ports target protocol targets port)"
  by (simp add: port_step_def distinct_add)

lemma set_ports_loop:
  "set (ports_loop web_ports target protocol ports targets) =
     set targets \<union> (\<Union>port \<in> set ports. port_entries web_ports target protocol port)"
  by (induction ports arbitrary: targets) (auto simp: set_port_step)

lemma distinct_ports_loop:
  "distinct targets \<Longrightarrow> distinct (ports_loop web_ports target protocol ports targets)"
  by (induction ports arbitrary: targets) (simp_all add: distinct_port_step)

lemma set_protocols_loop:
  "set (protocols_loop web_ports target protocol_dict targets) =
     set targets \<union> host_entries web_ports target protocol_dict"
  by (induction web_ports target protocol_dict targets rule: protocols_loop.induct)
    (simp_all add: host_entries_def set_ports_loop Un_assoc)

lemma distinct_protocols_loop:
  "distinct targets \<Longrightarrow> distinct (protocols_loop web_ports target protocol_dict targets)"
  by (induction protocol_dict arbitrary: targets) (auto simp: distinct_ports_loop)

lemma set_hosts_loop:
  "set (hosts_loop web_ports ip_dict targets) = set targets \<union> scan_entries web_ports ip_dict"
  by (induction web_ports ip_dict targets rule: hosts_loop.induct)
    (simp_all add: scan_entries_def set_protocols_loop Un_assoc)

lemma distinct_hosts_loop:
  "distinct targets \<Longrightarrow> distinct (hosts_loop web_ports ip_dict targets)"
  by (induction ip_dict arbitrary: targets) (auto simp: distinct_protocols_loop)

lemma set_lines_loop: "set (lines_loop f targets) = set targets \<union> strip ` set f"
  by (induction f arbitrary: targets) (auto simp: set_add)

lemma distinct_lines_loop: "distinct targets \<Longrightarrow> distinct (lines_loop f targets)"
  by (induction f arbitrary: targets) (simp_all add: distinct_add)

lemma set_shards_loop:
  "set (shards_loop amass targets) = set targets \<union> amass_entries amass"
  by (induction amass arbitrary: targets) (auto simp: amass_entries_def set_lines_loop)

lemma distinct_shards_loop: "distinct targets \<Longrightarrow> distinct (shards_loop amass targets)"
  by (induction amass arbitrary: targets) (simp_all add: distinct_lines_loop)

lemma set_gather:
  "set (gather web_ports ip_dict amass) = scan_entries web_ports ip_dict \<union> amass_entries amass"
  by (simp add: gather_def set_hosts_loop set_shards_loop)

lemma distinct_gather: "distinct (gather web_ports ip_dict amass)"
  by (simp add: gather_def distinct_hosts_loop distinct_shards_loop)

lemma scan_entries_append:
  "scan_entries web_ports (xs @ ys) = scan_entries web_ports xs \<union> scan_entries web_ports ys"
  by (simp add: scan_entries_def)

lemma scan_entries_Cons:
  "scan_entries web_ports ((target, protocol_dict) # rest) =
     host_entries web_ports target protocol_dict \<union> scan_entries web_ports rest"
  by (simp add: scan_entries_def)

lemma host_entries_append:
  "host_entries web_ports target (xs @ ys) =
     host_entries web_ports target xs \<union> host_entries web_ports target ys"
  by (simp add: host_entries_def)

lemma host_entries_Cons:
  "host_entries web_ports target ((protocol, ports) # rest) =
     (\<Union>port \<in> set ports. port_entries web_ports target protocol port) \<union>
     host_entries web_ports target rest"
  by (simp add: host_entries_def)

lemma in_port_entries:
  "e \<in> port_entries web_ports target protocol port \<longleftrightarrow>
     protocol \<noteq> ''udp'' \<and>
     (port = ''80'' \<and> e = target \<or>
      port \<noteq> ''80'' \<and> port \<in> web_ports \<and> e = target @ '':'' @ port)"
  by (simp add: port_entries_def)

lemma in_host_entries:
  "e \<in> host_entries web_ports target protocol_dict \<longleftrightarrow>
     (\<exists>protocol ports port. (protocol, ports) \<in> set protocol_dict \<and> port \<in> set ports \<and>
        e \<in> port_entries web_ports target protocol port)"
  unfolding host_entries_def by fastforce

lemma in_scan_entries_hosts:
  "e \<in> scan_entries web_ports ip_dict \<longleftrightarrow>
     (\<exists>target protocol_dict. (target, protocol_dict) \<in> set ip_dict \<and>
        e \<in> host_entries web_ports target protocol_dict)"
  unfolding scan_entries_def by fastforce

lemma in_scan_entries:
  "e \<in> scan_entries web_ports ip_dict \<longleftrightarrow>
     (\<exists>target protocol_dict protocol ports port.
        (target, protocol_dict) \<in> set ip_dict \<and> (protocol, ports) \<in> set protocol_dict \<and>
        port \<in> set ports \<and> protocol \<noteq> ''udp'' \<and>
        (port = ''80'' \<and> e = target \<or>
         port \<noteq> ''80'' \<and> port \<in> web_ports \<and> e = target @ '':'' @ port))"
  unfolding in_scan_entries_hosts in_host_entries in_port_entries by blast

lemma in_amass_entries:
  "e \<in> amass_entries amass \<longleftrightarrow> (\<exists>f line. f \<in> set amass \<and> line \<in> set f \<and> e = strip line)"
  by (auto simp: amass_entries_def)

section \<open>Auxiliary facts\<close>

lemma port_entries_udp: "port_entries web_ports target ''udp'' port = {}"
  by (simp add: port_entries_def)

lemma port_entries_tcp_80: "port_entries web_ports target ''tcp'' ''80'' = {target}"
  by (simp add: port_entries_def)

lemma port_entries_tcp_other:
  "port \<noteq> ''80'' \<Longrightarrow>
   port_entries web_ports target ''tcp'' port =
     (if port \<in> web_ports then {target @ '':'' @ port} else {})"
  by (simp add: port_entries_def)

lemma set_gather_port:
  "set (gather web_ports
          (hs @ (target, pd @ (protocol, ps @ port # ps') # pd') # hs') amass) =
   port_entries web_ports target protocol port \<union>
   set (gather web_ports (hs @ (target, pd @ (protocol, ps @ ps') # pd') # hs') amass)"
  by (auto simp: set_gather scan_entries_append scan_entries_Cons host_entries_append
      host_entries_Cons)

lemma set_gather_protocol:
  "set (gather web_ports (hs @ (target, pd @ (protocol, ports) # pd') # hs') amass) =
   (\<Union>port \<in> set ports. port_entries web_ports target protocol port) \<union>
   set (gather web_ports (hs @ (target, pd @ pd') # hs') amass)"
  by (auto simp: set_gather scan_entries_append scan_entries_Cons host_entries_append
      host_entries_Cons)

lemma ports_loop_udp: "ports_loop web_ports target ''udp'' ports targets = targets"
  by (induction ports arbitrary: targets) (simp_all add: port_step_def)

lemma strip_whitespace: "\<forall>c \<in> set line. isspace c \<Longrightarrow> strip line = []"
proof -
  assume "\<forall>c \<in> set line. isspace c"
  then have nothing_left: "dropWhile isspace line = []"
    by (induction line) simp_all
  show ?thesis
    unfolding strip_def nothing_left by simp
qed

lemma amass_entries_line:
  "amass_entries (fs @ (ls @ line # ls') # fs') =
     insert (strip line) (amass_entries (fs @ (ls @ ls') # fs'))"
  by (auto simp: amass_entries_def)

lemma scenario_gather:
  "gather {''8080''}
     [(''10.0.0.1'', [(''tcp'', [''80'', ''8080'']), (''udp'', [''53''])])]
     [[''sub.example.com'', '' '', ''sub.example.com'']] =
   [''10.0.0.1'', ''10.0.0.1:8080'', ''sub.example.com'', '''']"
  by (simp add: gather_def port_step_def add_def strip_def isspace_def)

lemma port_step_not_udp:
  "protocol \<noteq> ''udp'' \<Longrightarrow>
   port_step web_ports target protocol targets port =
     port_step web_ports target ''tcp'' targets port"
  by (simp add: port_step_def)

lemma ports_loop_not_udp:
  "protocol \<noteq> ''udp'' \<Longrightarrow>
   ports_loop web_ports target protocol ports targets =
     ports_loop web_ports target ''tcp'' ports targets"
  by (induction ports arbitrary: targets) (simp_all add: port_step_def)

lemma protocols_loop_append:
  "protocols_loop web_ports target (xs @ ys) targets =
     protocols_loop web_ports target ys (protocols_loop web_ports target xs targets)"
  by (induction web_ports target xs targets rule: protocols_loop.induct) simp_all

lemma hosts_loop_append:
  "hosts_loop web_ports (xs @ ys) targets =
     hosts_loop web_ports ys (hosts_loop web_ports xs targets)"
  by (induction web_ports xs targets rule: hosts_loop.induct) simp_all

lemma in_gather:
  "e \<in> set (gather web_ports ip_dict amass) \<longleftrightarrow>
     (\<exists>target protocol_dict protocol ports port.
        (target, protocol_dict) \<in> set ip_dict \<and> (protocol, ports) \<in> set protocol_dict \<and>
        port \<in> set ports \<and> protocol \<noteq> ''udp'' \<and>
        (port = ''80'' \<and> e = target \<or>
         port \<noteq> ''80'' \<and> port \<in> web_ports \<and> e = target @ '':'' @ port)) \<or>
     (\<exists>f line. f \<in> set amass \<and> line \<in> set f \<and> e = strip line)"
  unfolding set_gather Un_iff in_scan_entries in_amass_entries by (rule refl)

lemma port_entry_in_gather:
  "(target, protocol_dict) \<in> set ip_dict \<Longrightarrow> (protocol, ports) \<in> set protocol_dict \<Longrightarrow>
   port \<in> set ports \<Longrightarrow> e \<in> port_entries web_ports target protocol port \<Longrightarrow>
   e \<in> set (gather web_ports ip_dict amass)"
  unfolding set_gather Un_iff in_scan_entries_hosts in_host_entries by blast

lemma port_80_in_gather:
  "(target, protocol_dict) \<in> set ip_dict \<Longrightarrow> (protocol, ports) \<in> set protocol_dict \<Longrightarrow>
   ''80'' \<in> set ports \<Longrightarrow> protocol \<noteq> ''udp'' \<Longrightarrow>
   target \<in> set (gather web_ports ip_dict amass)"
  by (erule (2) port_entry_in_gather) (simp add: port_entries_def)

lemma web_port_in_gather:
  "(target, protocol_dict) \<in> set ip_dict \<Longrightarrow> (protocol, ports) \<in> set protocol_dict \<Longrightarrow>
   port \<in> set ports \<Longrightarrow> protocol \<noteq> ''udp'' \<Longrightarrow> port \<noteq> ''80'' \<Longrightarrow> port \<in> web_ports \<Longrightarrow>
   target @ '':'' @ port \<in> set (gather web_ports ip_dict amass)"
  by (erule (2) port_entry_in_gather) (simp add: port_entries_def)

lemma line_in_gather:
  "f \<in> set amass \<Longrightarrow> line \<in> set f \<Longrightarrow> strip line \<in> set (gather web_ports ip_dict amass)"
  unfolding set_gather Un_iff in_amass_entries by blast

lemma count_list_distinct:
  "distinct xs \<Longrightarrow> count_list xs x = (if x \<in> set xs then 1 else 0)"
  by (induction xs) auto

lemma count_gather:
  "count_list (gather web_ports ip_dict amass) e =
     (if e \<in> set (gather web_ports ip_dict amass) then 1 else 0)"
  by (rule count_list_distinct) (rule distinct_gather)

lemma distinct_write_targets: "distinct targets \<Longrightarrow> distinct (write_targets targets)"
  by (simp add: write_targets_def distinct_map inj_on_def)

section \<open>The run on any object: where it fails\<close>









lemma host_ok_not_dict: "\<forall>kvs. obj \<noteq> PyDict kvs \<Longrightarrow> \<not> host_ok obj"
  by (cases obj) (simp_all add: host_ok_def py_items_def)





























lemma is_ip_dict_as_pyobj: "is_ip_dict (as_pyobj ip_dict)"
  by (auto simp: as_pyobj_def is_ip_dict_def is_protocol_dict_def is_port_set_def list_all_iff)

section \<open>The properties of the specification\<close>

subsection \<open>The scenario with both sources\<close>

text \<open>
  C1 (as amended). For the masscan result \<open>{"10.0.0.1": {"tcp": {"80", "8080"}, "udp": {"53"}}}\<close>,
  \<open>web_ports = {"8080"}\<close> and the amass lines \<open>"sub.example.com"\<close>, \<open>" "\<close>,
  \<open>"sub.example.com"\<close>, the set \<open>targets\<close> is \<open>{"10.0.0.1", "10.0.0.1:8080",
  "sub.example.com", ""}\<close> and four lines are written: line 100 adds \<open>target.strip()\<close>
  without looking at it, so the line \<open>" "\<close> adds the empty string.
\<close>

theorem scenario_output:
  "set (gather {''8080''}
     [(''10.0.0.1'', [(''tcp'', [''80'', ''8080'']), (''udp'', [''53''])])]
     [[''sub.example.com'', '' '', ''sub.example.com'']]) =
   {''10.0.0.1'', ''10.0.0.1:8080'', ''sub.example.com'', ''''} \<and>
   length (run {''8080''}
     [(''10.0.0.1'', [(''tcp'', [''80'', ''8080'']), (''udp'', [''53''])])]
     [[''sub.example.com'', '' '', ''sub.example.com'']]) = 4"
  by (simp add: scenario_gather run_def write_targets_def)

text \<open>
  C1 as stated fails: on that input the set is not the three-element set
  \<open>{"10.0.0.1", "10.0.0.1:8080", "sub.example.com"}\<close>.
\<close>

theorem scenario_output_counterexample:
  "set (gather {''8080''}
     [(''10.0.0.1'', [(''tcp'', [''80'', ''8080'']), (''udp'', [''53''])])]
     [[''sub.example.com'', '' '', ''sub.example.com'']]) \<noteq>
   {''10.0.0.1'', ''10.0.0.1:8080'', ''sub.example.com''}"
proof -
  have "'''' \<in> set (gather {''8080''}
     [(''10.0.0.1'', [(''tcp'', [''80'', ''8080'']), (''udp'', [''53''])])]
     [[''sub.example.com'', '' '', ''sub.example.com'']])"
    by (simp add: scenario_gather)
  moreover have "'''' \<notin> {''10.0.0.1'', ''10.0.0.1:8080'', ''sub.example.com''}"
    by simp
  ultimately show ?thesis
    by blast
qed

subsection \<open>Empty and whitespace-only lines\<close>

text \<open>
  C2 (as amended). A line that is empty or made of whitespace only strips to the empty
  string, and what it adds to the output is exactly that entry: with the line, the set
  \<open>targets\<close> is the set without the line plus \<open>""\<close>.
\<close>

theorem whitespace_line_entry:
  assumes "\<forall>c \<in> set line. isspace c"
  shows "strip line = '''' \<and>
    set (gather web_ports ip_dict (fs @ (ls @ line # ls') # fs')) =
      insert '''' (set (gather web_ports ip_dict (fs @ (ls @ ls') # fs')))"
  using assms by (simp add: strip_whitespace set_gather amass_entries_line)

text \<open>The line of two spaces after \<open>"a.example.com"\<close>.\<close>

theorem whitespace_line_entry_witness:
  "strip ''  '' = '''' \<and>
   set (gather {} [] ([] @ ([''a.example.com''] @ ''  '' # []) # [])) =
     insert '''' (set (gather {} [] ([] @ ([''a.example.com''] @ []) # [])))"
  using whitespace_line_entry [where line = "''  ''" and web_ports = "{}" and ip_dict = "[]"
      and fs = "[]" and ls = "[''a.example.com'']" and ls' = "[]" and fs' = "[]"]
  by (simp add: isspace_def)

text \<open>
  C2 as stated fails: with no masscan result and the single amass line \<open>" "\<close> (or the
  empty line) the output is not empty, it holds the entry \<open>""\<close>.
\<close>

theorem whitespace_line_counterexample:
  "set (gather {} [] [['' '']]) = {''''} \<and> set (gather {} [] [['''']]) = {''''}"
  by (simp add: gather_def add_def strip_def isspace_def)

subsection \<open>UDP is excluded\<close>

text \<open>
  C3. The ports of a \<open>"udp"\<close> key add nothing, whatever the ports and whatever
  \<open>web_ports\<close>: the loop over them returns \<open>targets\<close> as it was; the output for a
  host with a \<open>"udp"\<close> key is the output for that host without the key; a masscan result
  with one host and only a \<open>"udp"\<close> key gives the empty output; in particular
  \<open>{"10.0.0.2": {"udp": {"80"}}}\<close> with empty \<open>web_ports\<close> and no amass line does.
\<close>

theorem udp_excluded:
  "ports_loop web_ports target ''udp'' ports targets = targets \<and>
   set (gather web_ports (hs @ (target, pd @ (''udp'', ports) # pd') # hs') amass) =
     set (gather web_ports (hs @ (target, pd @ pd') # hs') amass) \<and>
   gather web_ports [(target, [(''udp'', ports)])] [] = [] \<and>
   gather {} [(''10.0.0.2'', [(''udp'', [''80''])])] [] = []"
proof (intro conjI)
  show "ports_loop web_ports target ''udp'' ports targets = targets"
    by (rule ports_loop_udp)
  show "set (gather web_ports (hs @ (target, pd @ (''udp'', ports) # pd') # hs') amass) =
     set (gather web_ports (hs @ (target, pd @ pd') # hs') amass)"
    by (simp add: set_gather_protocol port_entries_udp)
  show "gather web_ports [(target, [(''udp'', ports)])] [] = []"
    by (simp add: gather_def ports_loop_udp)
  show "gather {} [(''10.0.0.2'', [(''udp'', [''80''])])] [] = []"
    by (simp add: gather_def port_step_def)
qed

subsection \<open>Port 80 gives the bare host\<close>

text \<open>
  C4. A host of the masscan result with \<open>"80"\<close> among its \<open>"tcp"\<close> ports is in the output
  as the bare host. What that port adds is the bare host and nothing else, whatever
  \<open>web_ports\<close> holds (\<open>"80"\<close> may be a member): the loop body adds \<open>target\<close>, the output
  with the port is the output without it plus the bare host, and \<open>host:80\<close> is in the
  output with the port only if it is there without it.
\<close>

theorem port_80_rule:
  assumes "(target, protocol_dict) \<in> set ip_dict"
    and "(''tcp'', ports) \<in> set protocol_dict"
    and "''80'' \<in> set ports"
  shows "target \<in> set (gather web_ports ip_dict amass) \<and>
    port_step web_ports target ''tcp'' targets ''80'' = add target targets \<and>
    set (gather web_ports
          (hs @ (target, pd @ (''tcp'', ps @ ''80'' # ps') # pd') # hs') amass) =
      insert target
        (set (gather web_ports
          (hs @ (target, pd @ (''tcp'', ps @ ps') # pd') # hs') amass)) \<and>
    (target @ '':80'' \<in> set (gather web_ports
          (hs @ (target, pd @ (''tcp'', ps @ ''80'' # ps') # pd') # hs') amass) \<longleftrightarrow>
     target @ '':80'' \<in> set (gather web_ports
          (hs @ (target, pd @ (''tcp'', ps @ ps') # pd') # hs') amass))"
proof (intro conjI)
  show "target \<in> set (gather web_ports ip_dict amass)"
    using assms by (simp add: port_80_in_gather)
  show "port_step web_ports target ''tcp'' targets ''80'' = add target targets"
    by (simp add: port_step_def)
  show "set (gather web_ports
          (hs @ (target, pd @ (''tcp'', ps @ ''80'' # ps') # pd') # hs') amass) =
      insert target
        (set (gather web_ports
          (hs @ (target, pd @ (''tcp'', ps @ ps') # pd') # hs') amass))"
    by (simp add: set_gather_port port_entries_tcp_80)
  show "target @ '':80'' \<in> set (gather web_ports
          (hs @ (target, pd @ (''tcp'', ps @ ''80'' # ps') # pd') # hs') amass) \<longleftrightarrow>
     target @ '':80'' \<in> set (gather web_ports
          (hs @ (target, pd @ (''tcp'', ps @ ps') # pd') # hs') amass)"
    by (simp add: set_gather_port port_entries_tcp_80)
qed

text \<open>
  The host \<open>10.0.0.1\<close> with TCP port 80 and \<open>web_ports = {"80", "443"}\<close>: the output is
  the bare host alone.
\<close>

theorem port_80_rule_witness:
  "''10.0.0.1'' \<in> set (gather {''80'', ''443''} [(''10.0.0.1'', [(''tcp'', [''80''])])] []) \<and>
   port_step {''80'', ''443''} ''10.0.0.1'' ''tcp'' [] ''80'' = add ''10.0.0.1'' [] \<and>
   set (gather {''80'', ''443''} [(''10.0.0.1'', [(''tcp'', [''80''])])] []) =
     insert ''10.0.0.1'' (set (gather {''80'', ''443''} [(''10.0.0.1'', [(''tcp'', [])])] [])) \<and>
   gather {''80'', ''443''} [(''10.0.0.1'', [(''tcp'', [''80''])])] [] = [''10.0.0.1'']"
proof -
  have "gather {''80'', ''443''} [(''10.0.0.1'', [(''tcp'', [''80''])])] [] = [''10.0.0.1'']"
    by (simp add: gather_def port_step_def add_def)
  then show ?thesis
    using port_80_rule [where target = "''10.0.0.1''" and protocol_dict = "[(''tcp'', [''80''])]"
        and ip_dict = "[(''10.0.0.1'', [(''tcp'', [''80''])])]" and ports = "[''80'']"
        and web_ports = "{''80'', ''443''}" and amass = "[]" and targets = "[]"
        and hs = "[]" and pd = "[]" and ps = "[]" and ps' = "[]" and pd' = "[]"
        and hs' = "[]"]
    by simp
qed

subsection \<open>Other ports go through web_ports\<close>

text \<open>
  C5. For a host with a port \<open>P\<close> other than \<open>"80"\<close> among its \<open>"tcp"\<close> ports: when
  \<open>P\<close> is in \<open>web_ports\<close> the output holds \<open>host:P\<close>; the loop body adds \<open>host:P\<close>
  when \<open>P\<close> is in \<open>web_ports\<close> and nothing otherwise; the output with the port is the
  output without it plus \<open>host:P\<close> exactly when \<open>P\<close> is in \<open>web_ports\<close>, so that for
  \<open>P\<close> outside \<open>web_ports\<close> the entry \<open>host:P\<close> is in the output with the port only if
  it is there without it; and when
  \<open>"80"\<close> is open too and \<open>P\<close> is in \<open>web_ports\<close>, the output holds both the bare host
  and \<open>host:P\<close>, two different entries.
\<close>

theorem policy_port_rule:
  assumes "(target, protocol_dict) \<in> set ip_dict"
    and "(''tcp'', ports) \<in> set protocol_dict"
    and "port \<in> set ports"
    and "port \<noteq> ''80''"
  shows "(port \<in> web_ports \<longrightarrow> target @ '':'' @ port \<in> set (gather web_ports ip_dict amass)) \<and>
    port_step web_ports target ''tcp'' targets port =
      (if port \<in> web_ports then add (target @ '':'' @ port) targets else targets) \<and>
    set (gather web_ports (hs @ (target, pd @ (''tcp'', ps @ port # ps') # pd') # hs') amass) =
      (if port \<in> web_ports then {target @ '':'' @ port} else {}) \<union>
      set (gather web_ports (hs @ (target, pd @ (''tcp'', ps @ ps') # pd') # hs') amass) \<and>
    (port \<notin> web_ports \<longrightarrow>
       (target @ '':'' @ port \<in> set (gather web_ports
          (hs @ (target, pd @ (''tcp'', ps @ port # ps') # pd') # hs') amass) \<longleftrightarrow>
        target @ '':'' @ port \<in> set (gather web_ports
          (hs @ (target, pd @ (''tcp'', ps @ ps') # pd') # hs') amass))) \<and>
    (''80'' \<in> set ports \<and> port \<in> web_ports \<longrightarrow>
       target \<in> set (gather web_ports ip_dict amass) \<and>
       target @ '':'' @ port \<in> set (gather web_ports ip_dict amass) \<and>
       target \<noteq> target @ '':'' @ port)"
proof (intro conjI impI)
  show in_policy: "target @ '':'' @ port \<in> set (gather web_ports ip_dict amass)"
    if "port \<in> web_ports"
    using assms that
      web_port_in_gather [of target protocol_dict ip_dict "''tcp''" ports port web_ports amass]
    by simp
  show "port_step web_ports target ''tcp'' targets port =
      (if port \<in> web_ports then add (target @ '':'' @ port) targets else targets)"
    using assms(4) by (simp add: port_step_def)
  show "set (gather web_ports (hs @ (target, pd @ (''tcp'', ps @ port # ps') # pd') # hs') amass) =
      (if port \<in> web_ports then {target @ '':'' @ port} else {}) \<union>
      set (gather web_ports (hs @ (target, pd @ (''tcp'', ps @ ps') # pd') # hs') amass)"
    using assms(4) by (simp add: set_gather_port port_entries_tcp_other)
  show "target @ '':'' @ port \<in> set (gather web_ports
          (hs @ (target, pd @ (''tcp'', ps @ port # ps') # pd') # hs') amass) \<longleftrightarrow>
        target @ '':'' @ port \<in> set (gather web_ports
          (hs @ (target, pd @ (''tcp'', ps @ ps') # pd') # hs') amass)"
    if "port \<notin> web_ports"
    using assms(4) that by (simp add: set_gather_port port_entries_tcp_other)
  show "target \<in> set (gather web_ports ip_dict amass)"
    if "''80'' \<in> set ports \<and> port \<in> web_ports"
    using assms that
      port_80_in_gather [of target protocol_dict ip_dict "''tcp''" ports web_ports amass]
    by simp
  show "target @ '':'' @ port \<in> set (gather web_ports ip_dict amass)"
    if "''80'' \<in> set ports \<and> port \<in> web_ports"
    using in_policy that by simp
  show "target \<noteq> target @ '':'' @ port"
    by simp
qed

text \<open>The host \<open>10.0.0.1\<close> with TCP ports 80 and 8080, and \<open>web_ports = {"8080"}\<close>.\<close>

theorem policy_port_rule_witness:
  "''10.0.0.1:8080'' \<in>
     set (gather {''8080''} [(''10.0.0.1'', [(''tcp'', [''80'', ''8080''])])] []) \<and>
   port_step {''8080''} ''10.0.0.1'' ''tcp'' [] ''8080'' = add ''10.0.0.1:8080'' [] \<and>
   set (gather {''8080''} [(''10.0.0.1'', [(''tcp'', [''80'', ''8080''])])] []) =
     {''10.0.0.1:8080''} \<union>
     set (gather {''8080''} [(''10.0.0.1'', [(''tcp'', [''80''])])] []) \<and>
   ''10.0.0.1'' \<in> set (gather {''8080''} [(''10.0.0.1'', [(''tcp'', [''80'', ''8080''])])] [])"
  using policy_port_rule [where target = "''10.0.0.1''"
      and protocol_dict = "[(''tcp'', [''80'', ''8080''])]"
      and ip_dict = "[(''10.0.0.1'', [(''tcp'', [''80'', ''8080''])])]"
      and ports = "[''80'', ''8080'']" and port = "''8080''" and web_ports = "{''8080''}"
      and amass = "[]" and targets = "[]" and hs = "[]" and pd = "[]" and ps = "[''80'']"
      and ps' = "[]" and pd' = "[]" and hs' = "[]"]
  by (simp add: gather_def port_step_def add_def)


subsection \<open>No duplicates\<close>

text \<open>
  C6. The set \<open>targets\<close> holds no entry twice and neither do the written lines; as many
  lines are written as there are different entries. However often a line or a host and
  port occur in the input, and whether the masscan result and the amass lines give the
  same string or not, the entry of an amass line (the stripped line), of a port 80 that
  is not UDP (the bare host) and of a port in \<open>web_ports\<close> that is not UDP (\<open>host:port\<close>)
  is there exactly once.
\<close>

theorem no_duplicate_entries:
  "distinct (gather web_ports ip_dict amass) \<and>
   distinct (run web_ports ip_dict amass) \<and>
   length (run web_ports ip_dict amass) = card (set (gather web_ports ip_dict amass)) \<and>
   (f \<in> set amass \<and> line \<in> set f \<longrightarrow>
      count_list (gather web_ports ip_dict amass) (strip line) = 1) \<and>
   ((target, protocol_dict) \<in> set ip_dict \<and> (protocol, ports) \<in> set protocol_dict \<and>
    protocol \<noteq> ''udp'' \<and> ''80'' \<in> set ports \<longrightarrow>
      count_list (gather web_ports ip_dict amass) target = 1) \<and>
   ((target, protocol_dict) \<in> set ip_dict \<and> (protocol, ports) \<in> set protocol_dict \<and>
    protocol \<noteq> ''udp'' \<and> port \<in> set ports \<and> port \<noteq> ''80'' \<and> port \<in> web_ports \<longrightarrow>
      count_list (gather web_ports ip_dict amass) (target @ '':'' @ port) = 1)"
proof (intro conjI impI)
  show "distinct (gather web_ports ip_dict amass)"
    by (rule distinct_gather)
  show "distinct (run web_ports ip_dict amass)"
    unfolding run_def by (rule distinct_write_targets) (rule distinct_gather)
  show "length (run web_ports ip_dict amass) = card (set (gather web_ports ip_dict amass))"
    by (simp add: run_def write_targets_def distinct_card distinct_gather)
  show "count_list (gather web_ports ip_dict amass) (strip line) = 1"
    if "f \<in> set amass \<and> line \<in> set f"
    using that line_in_gather [of f amass line web_ports ip_dict]
    by (simp add: count_gather)
  show "count_list (gather web_ports ip_dict amass) target = 1"
    if "(target, protocol_dict) \<in> set ip_dict \<and> (protocol, ports) \<in> set protocol_dict \<and>
      protocol \<noteq> ''udp'' \<and> ''80'' \<in> set ports"
    using that port_80_in_gather [of target protocol_dict ip_dict protocol ports web_ports amass]
    by (simp add: count_gather)
  show "count_list (gather web_ports ip_dict amass) (target @ '':'' @ port) = 1"
    if "(target, protocol_dict) \<in> set ip_dict \<and> (protocol, ports) \<in> set protocol_dict \<and>
      protocol \<noteq> ''udp'' \<and> port \<in> set ports \<and> port \<noteq> ''80'' \<and> port \<in> web_ports"
    using that
      web_port_in_gather [of target protocol_dict ip_dict protocol ports port web_ports amass]
    by (simp add: count_gather)
qed

text \<open>
  The same host under two keys, port 443 twice, and amass lines that repeat what the
  masscan result gives: two lines are written.
\<close>

theorem no_duplicate_entries_witness:
  "distinct (gather {''443''}
     [(''a.example.com'', [(''tcp'', [''80'', ''443'', ''443''])]),
      (''a.example.com'', [(''sctp'', [''80''])])]
     [[''a.example.com'', ''a.example.com:443''], [''a.example.com '']]) \<and>
   distinct (run {''443''}
     [(''a.example.com'', [(''tcp'', [''80'', ''443'', ''443''])]),
      (''a.example.com'', [(''sctp'', [''80''])])]
     [[''a.example.com'', ''a.example.com:443''], [''a.example.com '']]) \<and>
   length (run {''443''}
     [(''a.example.com'', [(''tcp'', [''80'', ''443'', ''443''])]),
      (''a.example.com'', [(''sctp'', [''80''])])]
     [[''a.example.com'', ''a.example.com:443''], [''a.example.com '']]) = 2 \<and>
   count_list (gather {''443''}
     [(''a.example.com'', [(''tcp'', [''80'', ''443'', ''443''])]),
      (''a.example.com'', [(''sctp'', [''80''])])]
     [[''a.example.com'', ''a.example.com:443''], [''a.example.com '']])
     (strip ''a.example.com '') = 1 \<and>
   count_list (gather {''443''}
     [(''a.example.com'', [(''tcp'', [''80'', ''443'', ''443''])]),
      (''a.example.com'', [(''sctp'', [''80''])])]
     [[''a.example.com'', ''a.example.com:443''], [''a.example.com '']])
     ''a.example.com'' = 1 \<and>
   count_list (gather {''443''}
     [(''a.example.com'', [(''tcp'', [''80'', ''443'', ''443''])]),
      (''a.example.com'', [(''sctp'', [''80''])])]
     [[''a.example.com'', ''a.example.com:443''], [''a.example.com '']])
     (''a.example.com'' @ '':'' @ ''443'') = 1"
proof -
  have card_two: "card {''a.example.com'', ''a.example.com:443''} = 2"
    by simp
  show ?thesis
    using no_duplicate_entries [where web_ports = "{''443''}"
      and ip_dict = "[(''a.example.com'', [(''tcp'', [''80'', ''443'', ''443''])]),
        (''a.example.com'', [(''sctp'', [''80''])])]"
      and amass = "[[''a.example.com'', ''a.example.com:443''], [''a.example.com '']]"
      and f = "[''a.example.com '']" and line = "''a.example.com ''"
      and target = "''a.example.com''"
      and protocol_dict = "[(''tcp'', [''80'', ''443'', ''443''])]"
      and protocol = "''tcp''" and ports = "[''80'', ''443'', ''443'']" and port = "''443''"]
    by (simp add: gather_def port_step_def add_def strip_def isspace_def run_def
        write_targets_def)
qed

subsection \<open>Where an entry comes from\<close>

text \<open>
  C7 (as amended). An entry is in the output exactly when it is (a) a host of the masscan
  result with port \<open>"80"\<close> under a protocol other than \<open>"udp"\<close>, or (b) \<open>host:port\<close> for
  a host with a port other than \<open>"80"\<close> that is in \<open>web_ports\<close>, under a protocol other
  than \<open>"udp"\<close>, or (c) the stripped form of an amass line. Ports under \<open>"udp"\<close> never
  contribute. The protocol need not be \<open>"tcp"\<close>.
\<close>

theorem entries_traceable:
  "e \<in> set (gather web_ports ip_dict amass) \<longleftrightarrow>
     (\<exists>target protocol_dict protocol ports.
        (target, protocol_dict) \<in> set ip_dict \<and> (protocol, ports) \<in> set protocol_dict \<and>
        protocol \<noteq> ''udp'' \<and> ''80'' \<in> set ports \<and> e = target) \<or>
     (\<exists>target protocol_dict protocol ports port.
        (target, protocol_dict) \<in> set ip_dict \<and> (protocol, ports) \<in> set protocol_dict \<and>
        protocol \<noteq> ''udp'' \<and> port \<in> set ports \<and> port \<noteq> ''80'' \<and> port \<in> web_ports \<and>
        e = target @ '':'' @ port) \<or>
     (\<exists>f line. f \<in> set amass \<and> line \<in> set f \<and> e = strip line)"
  unfolding in_gather by (intro iffI; elim disjE exE conjE; blast)

text \<open>
  C7 as stated fails: for \<open>{"10.0.0.3": {"sctp": {"80"}}}\<close>, no amass line and empty
  \<open>web_ports\<close>, the output holds \<open>10.0.0.3\<close>, which is neither a host with TCP port 80,
  nor \<open>host:port\<close> for a TCP port in \<open>web_ports\<close>, nor an amass line.
\<close>

theorem entries_traceable_counterexample:
  "''10.0.0.3'' \<in> set (gather {} [(''10.0.0.3'', [(''sctp'', [''80''])])] []) \<and>
   \<not> ((\<exists>target protocol_dict ports.
          (target, protocol_dict) \<in> set [(''10.0.0.3'', [(''sctp'', [''80''])])] \<and>
          (''tcp'', ports) \<in> set protocol_dict \<and> ''80'' \<in> set ports \<and>
          ''10.0.0.3'' = target) \<or>
       (\<exists>target protocol_dict ports port.
          (target, protocol_dict) \<in> set [(''10.0.0.3'', [(''sctp'', [''80''])])] \<and>
          (''tcp'', ports) \<in> set protocol_dict \<and> port \<in> set ports \<and> port \<in> {} \<and>
          ''10.0.0.3'' = target @ '':'' @ port) \<or>
       (\<exists>f line. f \<in> set [] \<and> line \<in> set f \<and> ''10.0.0.3'' = strip line))"
  by (simp add: gather_def port_step_def add_def)

subsection \<open>The order of the two sources\<close>

text \<open>
  C8. Running the masscan loop first and the amass loop second gives the same set of
  entries, and the same set of written lines, as running the amass loop first and the
  masscan loop second.
\<close>

theorem sources_commute:
  "set (gather web_ports ip_dict amass) = set (gather_amass_first web_ports ip_dict amass) \<and>
   set (run web_ports ip_dict amass) =
     set (write_targets (gather_amass_first web_ports ip_dict amass))"
  by (auto simp: gather_def gather_amass_first_def run_def write_targets_def set_hosts_loop
      set_shards_loop)

subsection \<open>Inputs that cannot be read or are not of the expected shape\<close>




subsection \<open>Protocols other than udp\<close>

text \<open>
  C10. Only the key \<open>"udp"\<close> is left out. Under any other protocol key the loop body
  does what it does under \<open>"tcp"\<close>, and \<open>targets\<close> is the same as if the key were
  \<open>"tcp"\<close>; so port \<open>"80"\<close> gives the bare host, and a port other than \<open>"80"\<close> that is
  in \<open>web_ports\<close> gives \<open>host:port\<close>.
\<close>

theorem only_udp_excluded:
  assumes "protocol \<noteq> ''udp''"
  shows "port_step web_ports target protocol targets port =
      port_step web_ports target ''tcp'' targets port \<and>
    gather web_ports (hs @ (target, pd @ (protocol, ports) # pd') # hs') amass =
      gather web_ports (hs @ (target, pd @ (''tcp'', ports) # pd') # hs') amass \<and>
    (''80'' \<in> set ports \<longrightarrow>
       target \<in> set (gather web_ports
         (hs @ (target, pd @ (protocol, ports) # pd') # hs') amass)) \<and>
    (port \<in> set ports \<and> port \<noteq> ''80'' \<and> port \<in> web_ports \<longrightarrow>
       target @ '':'' @ port \<in> set (gather web_ports
         (hs @ (target, pd @ (protocol, ports) # pd') # hs') amass))"
proof (intro conjI impI)
  show "port_step web_ports target protocol targets port =
      port_step web_ports target ''tcp'' targets port"
    using assms by (rule port_step_not_udp)
  show "gather web_ports (hs @ (target, pd @ (protocol, ports) # pd') # hs') amass =
      gather web_ports (hs @ (target, pd @ (''tcp'', ports) # pd') # hs') amass"
    using assms
    by (simp add: gather_def hosts_loop_append protocols_loop_append
        ports_loop_not_udp [of protocol])
  show "target \<in> set (gather web_ports
         (hs @ (target, pd @ (protocol, ports) # pd') # hs') amass)"
    if "''80'' \<in> set ports"
    using assms that
      port_80_in_gather [of target "pd @ (protocol, ports) # pd'"
        "hs @ (target, pd @ (protocol, ports) # pd') # hs'" protocol ports web_ports amass]
    by simp
  show "target @ '':'' @ port \<in> set (gather web_ports
         (hs @ (target, pd @ (protocol, ports) # pd') # hs') amass)"
    if "port \<in> set ports \<and> port \<noteq> ''80'' \<and> port \<in> web_ports"
    using assms that
      web_port_in_gather [of target "pd @ (protocol, ports) # pd'"
        "hs @ (target, pd @ (protocol, ports) # pd') # hs'" protocol ports port web_ports amass]
    by simp
qed

text \<open>The protocol \<open>"sctp"\<close> with ports 80, 8443 and 22, and \<open>web_ports = {"8443"}\<close>.\<close>

theorem only_udp_excluded_witness:
  "port_step {''8443''} ''10.0.0.4'' ''sctp'' [] ''8443'' =
     port_step {''8443''} ''10.0.0.4'' ''tcp'' [] ''8443'' \<and>
   gather {''8443''} [(''10.0.0.4'', [(''sctp'', [''80'', ''8443'', ''22''])])] [] =
     gather {''8443''} [(''10.0.0.4'', [(''tcp'', [''80'', ''8443'', ''22''])])] [] \<and>
   ''10.0.0.4'' \<in>
     set (gather {''8443''} [(''10.0.0.4'', [(''sctp'', [''80'', ''8443'', ''22''])])] []) \<and>
   ''10.0.0.4:8443'' \<in>
     set (gather {''8443''} [(''10.0.0.4'', [(''sctp'', [''80'', ''8443'', ''22''])])] []) \<and>
   set (gather {''8443''} [(''10.0.0.4'', [(''sctp'', [''80'', ''8443'', ''22''])])] []) =
     {''10.0.0.4'', ''10.0.0.4:8443''}"
proof -
  have "set (gather {''8443''} [(''10.0.0.4'', [(''sctp'', [''80'', ''8443'', ''22''])])] []) =
     {''10.0.0.4'', ''10.0.0.4:8443''}"
    by (simp add: gather_def port_step_def add_def)
  then show ?thesis
    using only_udp_excluded [where protocol = "''sctp''" and web_ports = "{''8443''}"
      and target = "''10.0.0.4''" and targets = "[]" and port = "''8443''"
      and ports = "[''80'', ''8443'', ''22'']" and hs = "[]" and pd = "[]" and pd' = "[]"
      and hs' = "[]" and amass = "[]"]
    by (simp add: gather_def port_step_def add_def)
qed

end
